theory Spec2Isabelle
  imports Main
begin

section \<open>Conditional compilation, as far as ofexport.h uses it\<close>

text \<open>
  The header ofstd/include/dcmtk/ofstd/ofexport.h consists of preprocessing directives
  only: object-like \<open>#define\<close>s, \<open>#ifdef\<close>/\<open>#ifndef\<close> groups (one of them
  with an \<open>#elif defined(...)\<close> part) and one \<open>#include\<close>. Its meaning is the macro
  table it leaves behind. The table maps a macro name to its replacement text; a name
  that is not in the table is not defined.
\<close>

type_synonym macros = "string \<rightharpoonup> string"

text \<open>
  The only way such a header can be rejected is a \<open>#define\<close> of a name that already has
  a different replacement text.
\<close>

datatype error = Redefinition string

text \<open>What the files named by \<open>#include\<close> do to the macro table.\<close>

type_synonym headers = "string \<Rightarrow> macros \<Rightarrow> error + macros"

text \<open>
  \<open>Ifdef n t e\<close> is \<open>#ifdef n\<close> \<open>t\<close> \<open>#else\<close> \<open>e\<close> \<open>#endif\<close>, and
  \<open>Ifndef\<close> likewise; a group without \<open>#else\<close> has the empty list as \<open>e\<close>. The group
  \<open>#ifdef A\<close> \<open>t\<close> \<open>#elif defined(B)\<close> \<open>u\<close> \<open>#endif\<close> is
  \<open>Ifdef A t [Ifdef B u []]\<close>.
\<close>

datatype directive =
    Define string string
  | Ifdef string "directive list" "directive list"
  | Ifndef string "directive list" "directive list"
  | Include string

fun exec :: "headers \<Rightarrow> directive \<Rightarrow> macros \<Rightarrow> error + macros"
  and exec_block :: "headers \<Rightarrow> directive list \<Rightarrow> macros \<Rightarrow> error + macros" where
  "exec H (Define n b) m =
     (case m n of
        None \<Rightarrow> Inr (m(n \<mapsto> b))
      | Some b' \<Rightarrow> if b' = b then Inr m else Inl (Redefinition n))"
| "exec H (Ifdef n t e) m = (if m n \<noteq> None then exec_block H t m else exec_block H e m)"
| "exec H (Ifndef n t e) m = (if m n = None then exec_block H t m else exec_block H e m)"
| "exec H (Include f) m = H f m"
| "exec_block H [] m = Inr m"
| "exec_block H (d # ds) m =
     (case exec H d m of Inl e \<Rightarrow> Inl e | Inr m' \<Rightarrow> exec_block H ds m')"

section \<open>The header\<close>

text \<open>
  Lines 28 to 50 of the header, directive by directive:
  \<^verbatim>\<open>
  #ifdef DCMTK_SHARED
  #ifdef _WIN32
  #define DCMTK_DECL_EXPORT __declspec(dllexport)
  #ifndef DCMTK_STATIC_FOR_SHARED
  #define DCMTK_DECL_IMPORT __declspec(dllimport)
  #endif
  #elif defined(HAVE_HIDDEN_VISIBILITY)
  #define DCMTK_DECL_EXPORT __attribute__ ((visibility("default")))
  #endif
  #endif

  #ifndef DCMTK_DECL_EXPORT
  #define DCMTK_DECL_EXPORT
  #endif

  #ifndef DCMTK_DECL_IMPORT
  #define DCMTK_DECL_IMPORT
  #endif
  \<close>
\<close>

definition resolver :: "directive list" where
  "resolver =
    [Ifdef ''DCMTK_SHARED''
       [Ifdef ''_WIN32''
          [Define ''DCMTK_DECL_EXPORT'' ''__declspec(dllexport)'',
           Ifndef ''DCMTK_STATIC_FOR_SHARED''
             [Define ''DCMTK_DECL_IMPORT'' ''__declspec(dllimport)'']
             []]
          [Ifdef ''HAVE_HIDDEN_VISIBILITY''
             [Define ''DCMTK_DECL_EXPORT'' ''__attribute__ ((visibility(\"default\")))'']
             []]]
       [],
     Ifndef ''DCMTK_DECL_EXPORT'' [Define ''DCMTK_DECL_EXPORT'' ''''] [],
     Ifndef ''DCMTK_DECL_IMPORT'' [Define ''DCMTK_DECL_IMPORT'' ''''] []]"

text \<open>
  The whole file: the include guard of lines 22, 23 and 53 around the inclusion of the
  configuration header (line 25) and the directives above.
\<close>

definition ofexport_h :: "directive list" where
  "ofexport_h =
    [Ifndef ''OFEXPORT_H''
       ([Define ''OFEXPORT_H'' '''',
         Include ''dcmtk/config/osconfig.h''] @ resolver)
       []]"

section \<open>Configurations\<close>

text \<open>
  The four macros the conditionals test. \<open>WIN32\<close> stands for the macro \<open>_WIN32\<close>.
  The header only asks whether each of them is defined.
\<close>

record config =
  DCMTK_SHARED :: bool
  WIN32 :: bool
  HAVE_HIDDEN_VISIBILITY :: bool
  DCMTK_STATIC_FOR_SHARED :: bool

definition flag :: "string \<Rightarrow> bool \<Rightarrow> macros \<Rightarrow> macros" where
  "flag n b m = (if b then m(n \<mapsto> ''1'') else m)"

text \<open>The macro table of a configuration, as the header finds it.\<close>

definition predefined :: "config \<Rightarrow> macros" where
  "predefined c =
     flag ''DCMTK_SHARED'' (DCMTK_SHARED c)
       (flag ''_WIN32'' (WIN32 c)
          (flag ''HAVE_HIDDEN_VISIBILITY'' (HAVE_HIDDEN_VISIBILITY c)
             (flag ''DCMTK_STATIC_FOR_SHARED'' (DCMTK_STATIC_FOR_SHARED c) Map.empty)))"

text \<open>
  Modelled from the spec: dcmtk/config/osconfig.h is produced by the build system and is
  not among the sources. The spec lists the configuration inputs as flags "set by the
  external build system, not by this component"; they are the parameter \<open>config\<close>,
  already in the table when the header is read, and the included file adds nothing to
  them.
\<close>

definition osconfig_h :: headers where
  "osconfig_h f m = Inr m"

definition resolve :: "config \<Rightarrow> error + macros" where
  "resolve c = exec_block osconfig_h ofexport_h (predefined c)"

text \<open>
  What a use of a macro name expands to after the header: \<open>Inr (Some b)\<close> is the
  replacement text \<open>b\<close>, \<open>Inr None\<close> a name that is still undefined.
\<close>

definition expansion :: "string \<Rightarrow> error + macros \<Rightarrow> error + string option" where
  "expansion n r = (case r of Inl e \<Rightarrow> Inl e | Inr m \<Rightarrow> Inr (m n))"

definition DCMTK_DECL_EXPORT :: "config \<Rightarrow> error + string option" where
  "DCMTK_DECL_EXPORT c = expansion ''DCMTK_DECL_EXPORT'' (resolve c)"

definition DCMTK_DECL_IMPORT :: "config \<Rightarrow> error + string option" where
  "DCMTK_DECL_IMPORT c = expansion ''DCMTK_DECL_IMPORT'' (resolve c)"

text \<open>Both annotations at once, for runs from an arbitrary macro table.\<close>

definition annotations :: "error + macros \<Rightarrow> error + (string option \<times> string option)" where
  "annotations r =
     (case r of
        Inl e \<Rightarrow> Inl e
      | Inr m \<Rightarrow> Inr (m ''DCMTK_DECL_EXPORT'', m ''DCMTK_DECL_IMPORT''))"

subsection \<open>The markers the specification names\<close>

definition dllexport_marker :: string where
  "dllexport_marker = ''__declspec(dllexport)''"

definition dllimport_marker :: string where
  "dllimport_marker = ''__declspec(dllimport)''"

definition default_visibility_marker :: string where
  "default_visibility_marker = ''__attribute__ ((visibility(\"default\")))''"

definition no_marker :: string where
  "no_marker = ''''"

subsection \<open>Comparing two macro tables\<close>

text \<open>Neither annotation has been defined yet.\<close>

definition undeclared :: "macros \<Rightarrow> bool" where
  "undeclared m = (m ''DCMTK_DECL_EXPORT'' = None \<and> m ''DCMTK_DECL_IMPORT'' = None)"

text \<open>Two tables define the same ones of the four configuration macros.\<close>

definition same_flags :: "macros \<Rightarrow> macros \<Rightarrow> bool" where
  "same_flags m1 m2 =
     ((m1 ''DCMTK_SHARED'' = None) = (m2 ''DCMTK_SHARED'' = None) \<and>
      (m1 ''_WIN32'' = None) = (m2 ''_WIN32'' = None) \<and>
      (m1 ''HAVE_HIDDEN_VISIBILITY'' = None) = (m2 ''HAVE_HIDDEN_VISIBILITY'' = None) \<and>
      (m1 ''DCMTK_STATIC_FOR_SHARED'' = None) = (m2 ''DCMTK_STATIC_FOR_SHARED'' = None))"

lemmas marker_defs =
  dllexport_marker_def dllimport_marker_def default_visibility_marker_def no_marker_def

lemmas resolve_defs =
  DCMTK_DECL_EXPORT_def DCMTK_DECL_IMPORT_def expansion_def resolve_def ofexport_h_def
  resolver_def osconfig_h_def predefined_def flag_def

section \<open>The table of outcomes\<close>

text \<open>
  Running the header on the table of a configuration never fails, and the two
  annotations are given by the nesting of the conditionals. Every property below is
  read off these two equations.
\<close>

lemma export_table:
  "DCMTK_DECL_EXPORT c =
     Inr (Some (if DCMTK_SHARED c
                then (if WIN32 c then dllexport_marker
                      else if HAVE_HIDDEN_VISIBILITY c then default_visibility_marker
                      else no_marker)
                else no_marker))"
  by (simp add: resolve_defs marker_defs)

lemma import_table:
  "DCMTK_DECL_IMPORT c =
     Inr (Some (if DCMTK_SHARED c \<and> WIN32 c \<and> \<not> DCMTK_STATIC_FOR_SHARED c
                then dllimport_marker else no_marker))"
  by (simp add: resolve_defs marker_defs)

lemma markers_distinct:
  "dllexport_marker \<noteq> dllimport_marker"
  "dllexport_marker \<noteq> default_visibility_marker"
  "dllexport_marker \<noteq> no_marker"
  "dllimport_marker \<noteq> default_visibility_marker"
  "dllimport_marker \<noteq> no_marker"
  "default_visibility_marker \<noteq> no_marker"
  by (simp_all add: marker_defs)

section \<open>Runs from an arbitrary macro table\<close>

lemma include_guard:
  "m ''OFEXPORT_H'' \<noteq> None \<Longrightarrow> exec_block H ofexport_h m = Inr m"
  by (auto simp add: ofexport_h_def)

lemma resolve_again:
  "resolve c = Inr m \<Longrightarrow> exec_block H ofexport_h m = Inr m"
  by (rule include_guard) (auto simp add: resolve_defs split: if_splits)

lemma ofexport_h_unfold:
  assumes "m ''OFEXPORT_H'' = None"
  shows "exec_block H ofexport_h m =
     (case H ''dcmtk/config/osconfig.h'' (m(''OFEXPORT_H'' \<mapsto> '''')) of
        Inl e \<Rightarrow> Inl e
      | Inr n \<Rightarrow> exec_block H resolver n)"
  using assms by (simp add: ofexport_h_def split: sum.splits)

lemma resolver_undeclared:
  assumes "undeclared m"
  shows "annotations (exec_block H resolver m) =
     Inr (Some (if m ''DCMTK_SHARED'' \<noteq> None
                then (if m ''_WIN32'' \<noteq> None then dllexport_marker
                      else if m ''HAVE_HIDDEN_VISIBILITY'' \<noteq> None
                      then default_visibility_marker
                      else no_marker)
                else no_marker),
          Some (if m ''DCMTK_SHARED'' \<noteq> None \<and> m ''_WIN32'' \<noteq> None
                   \<and> m ''DCMTK_STATIC_FOR_SHARED'' = None
                then dllimport_marker else no_marker))"
  using assms by (simp add: undeclared_def resolver_def annotations_def marker_defs)

section \<open>The properties of the specification\<close>

text \<open>
  Claim C1. In a shared build for Windows (\<open>DCMTK_SHARED\<close> and \<open>_WIN32\<close> defined) the
  import annotation is \<open>__declspec(dllimport)\<close> when \<open>DCMTK_STATIC_FOR_SHARED\<close> is not
  defined, and empty when it is.
\<close>

theorem import_windows_shared:
  assumes "DCMTK_SHARED c" and "WIN32 c"
  shows "(\<not> DCMTK_STATIC_FOR_SHARED c \<longrightarrow> DCMTK_DECL_IMPORT c = Inr (Some dllimport_marker)) \<and>
         (DCMTK_STATIC_FOR_SHARED c \<longrightarrow> DCMTK_DECL_IMPORT c = Inr (Some no_marker))"
  using assms by (simp add: import_table)

theorem import_windows_shared_witness:
  "DCMTK_DECL_IMPORT \<lparr>DCMTK_SHARED = True, WIN32 = True, HAVE_HIDDEN_VISIBILITY = False,
      DCMTK_STATIC_FOR_SHARED = False\<rparr> = Inr (Some ''__declspec(dllimport)'') \<and>
   DCMTK_DECL_IMPORT \<lparr>DCMTK_SHARED = True, WIN32 = True, HAVE_HIDDEN_VISIBILITY = False,
      DCMTK_STATIC_FOR_SHARED = True\<rparr> = Inr (Some '''')"
  using
    import_windows_shared [of "\<lparr>DCMTK_SHARED = True, WIN32 = True,
      HAVE_HIDDEN_VISIBILITY = False, DCMTK_STATIC_FOR_SHARED = False\<rparr>"]
    import_windows_shared [of "\<lparr>DCMTK_SHARED = True, WIN32 = True,
      HAVE_HIDDEN_VISIBILITY = False, DCMTK_STATIC_FOR_SHARED = True\<rparr>"]
  by (simp add: marker_defs)

text \<open>
  Claim C2. Resolution is total. For each of the sixteen settings of the four macros the
  header is accepted (the result is \<open>Inr\<close>, never an error), both annotations are defined
  afterwards, the export annotation is one of the two export markers or empty, the import
  annotation is the import marker or empty, and the empty text is the default: it is the
  outcome exactly when no branch of the conditional at lines 28 to 42 defines the
  annotation.
\<close>

theorem resolution_total:
  "\<exists>e i. DCMTK_DECL_EXPORT c = Inr (Some e) \<and> DCMTK_DECL_IMPORT c = Inr (Some i) \<and>
     e \<in> {dllexport_marker, default_visibility_marker, no_marker} \<and>
     i \<in> {dllimport_marker, no_marker} \<and>
     (e = no_marker) = (\<not> (DCMTK_SHARED c \<and> (WIN32 c \<or> HAVE_HIDDEN_VISIBILITY c))) \<and>
     (i = no_marker) = (\<not> (DCMTK_SHARED c \<and> WIN32 c \<and> \<not> DCMTK_STATIC_FOR_SHARED c))"
  by (simp add: export_table import_table markers_distinct)

text \<open>
  Claim C3. In a static build (\<open>DCMTK_SHARED\<close> not defined) both annotations are empty,
  whatever the other three macros are.
\<close>

theorem static_build_unmarked:
  assumes "\<not> DCMTK_SHARED c"
  shows "DCMTK_DECL_EXPORT c = Inr (Some no_marker) \<and>
         DCMTK_DECL_IMPORT c = Inr (Some no_marker)"
  using assms by (simp add: export_table import_table)

theorem static_build_unmarked_witness:
  "DCMTK_DECL_EXPORT \<lparr>DCMTK_SHARED = False, WIN32 = True, HAVE_HIDDEN_VISIBILITY = True,
      DCMTK_STATIC_FOR_SHARED = False\<rparr> = Inr (Some '''') \<and>
   DCMTK_DECL_IMPORT \<lparr>DCMTK_SHARED = False, WIN32 = True, HAVE_HIDDEN_VISIBILITY = True,
      DCMTK_STATIC_FOR_SHARED = False\<rparr> = Inr (Some '''')"
  using
    static_build_unmarked [of "\<lparr>DCMTK_SHARED = False, WIN32 = True,
      HAVE_HIDDEN_VISIBILITY = True, DCMTK_STATIC_FOR_SHARED = False\<rparr>"]
  by (simp add: marker_defs)

text \<open>
  Claim C4. In a shared build for Windows the export annotation is
  \<open>__declspec(dllexport)\<close>.
\<close>

theorem export_windows_shared:
  assumes "DCMTK_SHARED c" and "WIN32 c"
  shows "DCMTK_DECL_EXPORT c = Inr (Some dllexport_marker)"
  using assms by (simp add: export_table)

theorem export_windows_shared_witness:
  "DCMTK_DECL_EXPORT \<lparr>DCMTK_SHARED = True, WIN32 = True, HAVE_HIDDEN_VISIBILITY = False,
      DCMTK_STATIC_FOR_SHARED = False\<rparr> = Inr (Some ''__declspec(dllexport)'')"
  using
    export_windows_shared [of "\<lparr>DCMTK_SHARED = True, WIN32 = True,
      HAVE_HIDDEN_VISIBILITY = False, DCMTK_STATIC_FOR_SHARED = False\<rparr>"]
  by (simp add: marker_defs)

text \<open>
  Claim C5. In a shared build that is not for Windows the export annotation is the
  default-visibility attribute when \<open>HAVE_HIDDEN_VISIBILITY\<close> is defined, and empty when
  it is not.
\<close>

theorem export_posix_shared:
  assumes "DCMTK_SHARED c" and "\<not> WIN32 c"
  shows "(HAVE_HIDDEN_VISIBILITY c \<longrightarrow>
            DCMTK_DECL_EXPORT c = Inr (Some default_visibility_marker)) \<and>
         (\<not> HAVE_HIDDEN_VISIBILITY c \<longrightarrow> DCMTK_DECL_EXPORT c = Inr (Some no_marker))"
  using assms by (simp add: export_table)

theorem export_posix_shared_witness:
  "DCMTK_DECL_EXPORT \<lparr>DCMTK_SHARED = True, WIN32 = False, HAVE_HIDDEN_VISIBILITY = True,
      DCMTK_STATIC_FOR_SHARED = False\<rparr>
     = Inr (Some ''__attribute__ ((visibility(\"default\")))'') \<and>
   DCMTK_DECL_EXPORT \<lparr>DCMTK_SHARED = True, WIN32 = False, HAVE_HIDDEN_VISIBILITY = False,
      DCMTK_STATIC_FOR_SHARED = False\<rparr> = Inr (Some '''')"
  using
    export_posix_shared [of "\<lparr>DCMTK_SHARED = True, WIN32 = False,
      HAVE_HIDDEN_VISIBILITY = True, DCMTK_STATIC_FOR_SHARED = False\<rparr>"]
    export_posix_shared [of "\<lparr>DCMTK_SHARED = True, WIN32 = False,
      HAVE_HIDDEN_VISIBILITY = False, DCMTK_STATIC_FOR_SHARED = False\<rparr>"]
  by (simp add: marker_defs)

text \<open>
  Claim C6. In a shared build that is not for Windows the import annotation is empty,
  whatever \<open>HAVE_HIDDEN_VISIBILITY\<close> and \<open>DCMTK_STATIC_FOR_SHARED\<close> are.
\<close>

theorem import_posix_shared:
  assumes "DCMTK_SHARED c" and "\<not> WIN32 c"
  shows "DCMTK_DECL_IMPORT c = Inr (Some no_marker)"
  using assms by (simp add: import_table)

theorem import_posix_shared_witness:
  "DCMTK_DECL_IMPORT \<lparr>DCMTK_SHARED = True, WIN32 = False, HAVE_HIDDEN_VISIBILITY = True,
      DCMTK_STATIC_FOR_SHARED = True\<rparr> = Inr (Some '''')"
  using
    import_posix_shared [of "\<lparr>DCMTK_SHARED = True, WIN32 = False,
      HAVE_HIDDEN_VISIBILITY = True, DCMTK_STATIC_FOR_SHARED = True\<rparr>"]
  by (simp add: marker_defs)

text \<open>
  Claim C7, as amended. The outcome is a function of the four configuration macros
  provided the header's own three macros are untouched beforehand. Take two runs of the
  header, from any two macro tables \<open>m1\<close>, \<open>m2\<close> and with any two meanings \<open>H1\<close>,
  \<open>H2\<close> of the included files, such that the include guard \<open>OFEXPORT_H\<close> is not
  defined when the header is read and neither annotation is defined in the tables
  \<open>n1\<close>, \<open>n2\<close> in effect after the configuration header. If \<open>n1\<close> and \<open>n2\<close>
  agree on which of the four configuration macros are defined, both annotations come out
  the same in the two runs. Nothing else in the tables matters, neither other macros nor
  the replacement texts of the four.
\<close>

theorem resolution_deterministic:
  assumes "m1 ''OFEXPORT_H'' = None" and "m2 ''OFEXPORT_H'' = None"
    and "H1 ''dcmtk/config/osconfig.h'' (m1(''OFEXPORT_H'' \<mapsto> '''')) = Inr n1"
    and "H2 ''dcmtk/config/osconfig.h'' (m2(''OFEXPORT_H'' \<mapsto> '''')) = Inr n2"
    and "undeclared n1" and "undeclared n2"
    and "same_flags n1 n2"
  shows "annotations (exec_block H1 ofexport_h m1) = annotations (exec_block H2 ofexport_h m2)"
proof -
  have "annotations (exec_block H1 ofexport_h m1) = annotations (exec_block H1 resolver n1)"
    using assms(1,3) by (simp add: ofexport_h_unfold)
  moreover
  have "annotations (exec_block H2 ofexport_h m2) = annotations (exec_block H2 resolver n2)"
    using assms(2,4) by (simp add: ofexport_h_unfold)
  moreover
  have "annotations (exec_block H1 resolver n1) = annotations (exec_block H2 resolver n2)"
    using assms(5-7) by (simp add: resolver_undeclared same_flags_def)
  ultimately show ?thesis by simp
qed

theorem resolution_deterministic_witness:
  "annotations (exec_block osconfig_h ofexport_h
      (predefined \<lparr>DCMTK_SHARED = True, WIN32 = True, HAVE_HIDDEN_VISIBILITY = False,
         DCMTK_STATIC_FOR_SHARED = False\<rparr>))
     = annotations (exec_block (\<lambda>f m. Inr (m(''DCMTK_SHARED'' \<mapsto> ''yes''))) ofexport_h
      [''_WIN32'' \<mapsto> '''', ''NDEBUG'' \<mapsto> ''1''])"
  using
    resolution_deterministic [of
      "predefined \<lparr>DCMTK_SHARED = True, WIN32 = True, HAVE_HIDDEN_VISIBILITY = False,
         DCMTK_STATIC_FOR_SHARED = False\<rparr>"
      "[''_WIN32'' \<mapsto> '''', ''NDEBUG'' \<mapsto> ''1'']"
      osconfig_h
      "(predefined \<lparr>DCMTK_SHARED = True, WIN32 = True, HAVE_HIDDEN_VISIBILITY = False,
         DCMTK_STATIC_FOR_SHARED = False\<rparr>)(''OFEXPORT_H'' \<mapsto> '''')"
      "\<lambda>f m. Inr (m(''DCMTK_SHARED'' \<mapsto> ''yes''))"
      "[''_WIN32'' \<mapsto> '''', ''NDEBUG'' \<mapsto> ''1'', ''OFEXPORT_H'' \<mapsto> '''',
        ''DCMTK_SHARED'' \<mapsto> ''yes'']"]
  by (simp add: osconfig_h_def predefined_def flag_def undeclared_def same_flags_def)

text \<open>
  Claim C7 as it is written, without the proviso, does not hold of the header. Three
  runs in a static build, all with none of the four configuration macros defined, end
  differently: from the clean table both annotations are empty; with
  \<open>DCMTK_DECL_IMPORT\<close> already defined as \<open>extern\<close> the fallback of lines 48 to 50
  is skipped and the foreign text stays; with \<open>OFEXPORT_H\<close> already defined the
  include guard skips the whole header and both annotations stay undefined.
\<close>

theorem resolution_deterministic_counterexample:
  "same_flags
     (predefined \<lparr>DCMTK_SHARED = False, WIN32 = False, HAVE_HIDDEN_VISIBILITY = False,
        DCMTK_STATIC_FOR_SHARED = False\<rparr>)
     ((predefined \<lparr>DCMTK_SHARED = False, WIN32 = False, HAVE_HIDDEN_VISIBILITY = False,
        DCMTK_STATIC_FOR_SHARED = False\<rparr>)(''DCMTK_DECL_IMPORT'' \<mapsto> ''extern'')) \<and>
   same_flags
     (predefined \<lparr>DCMTK_SHARED = False, WIN32 = False, HAVE_HIDDEN_VISIBILITY = False,
        DCMTK_STATIC_FOR_SHARED = False\<rparr>)
     ((predefined \<lparr>DCMTK_SHARED = False, WIN32 = False, HAVE_HIDDEN_VISIBILITY = False,
        DCMTK_STATIC_FOR_SHARED = False\<rparr>)(''OFEXPORT_H'' \<mapsto> '''')) \<and>
   annotations (exec_block osconfig_h ofexport_h
     (predefined \<lparr>DCMTK_SHARED = False, WIN32 = False, HAVE_HIDDEN_VISIBILITY = False,
        DCMTK_STATIC_FOR_SHARED = False\<rparr>))
     = Inr (Some '''', Some '''') \<and>
   annotations (exec_block osconfig_h ofexport_h
     ((predefined \<lparr>DCMTK_SHARED = False, WIN32 = False, HAVE_HIDDEN_VISIBILITY = False,
        DCMTK_STATIC_FOR_SHARED = False\<rparr>)(''DCMTK_DECL_IMPORT'' \<mapsto> ''extern'')))
     = Inr (Some '''', Some ''extern'') \<and>
   annotations (exec_block osconfig_h ofexport_h
     ((predefined \<lparr>DCMTK_SHARED = False, WIN32 = False, HAVE_HIDDEN_VISIBILITY = False,
        DCMTK_STATIC_FOR_SHARED = False\<rparr>)(''OFEXPORT_H'' \<mapsto> '''')))
     = Inr (None, None) \<and>
   annotations (exec_block osconfig_h ofexport_h
     (predefined \<lparr>DCMTK_SHARED = False, WIN32 = False, HAVE_HIDDEN_VISIBILITY = False,
        DCMTK_STATIC_FOR_SHARED = False\<rparr>))
     \<noteq> annotations (exec_block osconfig_h ofexport_h
     ((predefined \<lparr>DCMTK_SHARED = False, WIN32 = False, HAVE_HIDDEN_VISIBILITY = False,
        DCMTK_STATIC_FOR_SHARED = False\<rparr>)(''DCMTK_DECL_IMPORT'' \<mapsto> ''extern'')))"
  by (simp add: same_flags_def annotations_def ofexport_h_def resolver_def osconfig_h_def
      predefined_def flag_def)

text \<open>
  Claim C8. The Windows branch comes first. In a shared build with both \<open>_WIN32\<close> and
  \<open>HAVE_HIDDEN_VISIBILITY\<close> defined the export annotation is \<open>__declspec(dllexport)\<close>
  and not the default-visibility attribute; the default-visibility attribute is the
  outcome only in a shared build with \<open>_WIN32\<close> undefined (and \<open>HAVE_HIDDEN_VISIBILITY\<close>
  defined).
\<close>

theorem windows_branch_precedence:
  "(DCMTK_SHARED c \<and> WIN32 c \<and> HAVE_HIDDEN_VISIBILITY c \<longrightarrow>
      DCMTK_DECL_EXPORT c = Inr (Some dllexport_marker) \<and>
      DCMTK_DECL_EXPORT c \<noteq> Inr (Some default_visibility_marker)) \<and>
   (DCMTK_DECL_EXPORT c = Inr (Some default_visibility_marker) \<longrightarrow>
      DCMTK_SHARED c \<and> \<not> WIN32 c \<and> HAVE_HIDDEN_VISIBILITY c)"
  by (simp add: export_table markers_distinct markers_distinct [symmetric])

theorem windows_branch_precedence_witness:
  "DCMTK_DECL_EXPORT \<lparr>DCMTK_SHARED = True, WIN32 = True, HAVE_HIDDEN_VISIBILITY = True,
      DCMTK_STATIC_FOR_SHARED = False\<rparr> = Inr (Some ''__declspec(dllexport)'') \<and>
   DCMTK_DECL_EXPORT \<lparr>DCMTK_SHARED = True, WIN32 = False, HAVE_HIDDEN_VISIBILITY = True,
      DCMTK_STATIC_FOR_SHARED = False\<rparr>
     = Inr (Some ''__attribute__ ((visibility(\"default\")))'') \<and>
   \<not> WIN32 \<lparr>DCMTK_SHARED = True, WIN32 = False, HAVE_HIDDEN_VISIBILITY = True,
      DCMTK_STATIC_FOR_SHARED = False\<rparr>"
  using
    windows_branch_precedence [of "\<lparr>DCMTK_SHARED = True, WIN32 = True,
      HAVE_HIDDEN_VISIBILITY = True, DCMTK_STATIC_FOR_SHARED = False\<rparr>"]
    windows_branch_precedence [of "\<lparr>DCMTK_SHARED = True, WIN32 = False,
      HAVE_HIDDEN_VISIBILITY = True, DCMTK_STATIC_FOR_SHARED = False\<rparr>"]
  by (simp add: marker_defs resolve_defs)

text \<open>
  Claim C9. Frame of \<open>DCMTK_STATIC_FOR_SHARED\<close>. Setting this flag to any value \<open>b\<close>
  leaves the export annotation as it was, in every configuration; and it leaves the
  import annotation as it was unless both \<open>DCMTK_SHARED\<close> and \<open>_WIN32\<close> are defined.
\<close>

theorem static_for_shared_frame:
  "DCMTK_DECL_EXPORT (c\<lparr>DCMTK_STATIC_FOR_SHARED := b\<rparr>) = DCMTK_DECL_EXPORT c \<and>
   (\<not> (DCMTK_SHARED c \<and> WIN32 c) \<longrightarrow>
      DCMTK_DECL_IMPORT (c\<lparr>DCMTK_STATIC_FOR_SHARED := b\<rparr>) = DCMTK_DECL_IMPORT c)"
  by (simp add: export_table import_table)

theorem static_for_shared_frame_witness:
  "DCMTK_DECL_EXPORT \<lparr>DCMTK_SHARED = True, WIN32 = False, HAVE_HIDDEN_VISIBILITY = True,
      DCMTK_STATIC_FOR_SHARED = True\<rparr>
     = DCMTK_DECL_EXPORT \<lparr>DCMTK_SHARED = True, WIN32 = False, HAVE_HIDDEN_VISIBILITY = True,
      DCMTK_STATIC_FOR_SHARED = False\<rparr> \<and>
   DCMTK_DECL_IMPORT \<lparr>DCMTK_SHARED = True, WIN32 = False, HAVE_HIDDEN_VISIBILITY = True,
      DCMTK_STATIC_FOR_SHARED = True\<rparr>
     = DCMTK_DECL_IMPORT \<lparr>DCMTK_SHARED = True, WIN32 = False, HAVE_HIDDEN_VISIBILITY = True,
      DCMTK_STATIC_FOR_SHARED = False\<rparr>"
  using
    static_for_shared_frame [where b = True and c = "\<lparr>DCMTK_SHARED = True,
      WIN32 = False, HAVE_HIDDEN_VISIBILITY = True, DCMTK_STATIC_FOR_SHARED = False\<rparr>"]
  by simp

text \<open>
  Claim C10. The import annotation is \<open>__declspec(dllimport)\<close> or empty in every
  configuration, never the default-visibility attribute, and setting
  \<open>HAVE_HIDDEN_VISIBILITY\<close> to any value \<open>b\<close> does not change it.
\<close>

theorem import_range:
  "(DCMTK_DECL_IMPORT c = Inr (Some dllimport_marker) \<or>
    DCMTK_DECL_IMPORT c = Inr (Some no_marker)) \<and>
   DCMTK_DECL_IMPORT c \<noteq> Inr (Some default_visibility_marker) \<and>
   DCMTK_DECL_IMPORT (c\<lparr>HAVE_HIDDEN_VISIBILITY := b\<rparr>) = DCMTK_DECL_IMPORT c"
  by (simp add: import_table markers_distinct markers_distinct [symmetric])

end
